theory Spec2Isabelle
  imports Main "HOL-Library.Char_ord" "HOL-Library.List_Lexorder"
begin

section \<open>Documents of the cluster API\<close>

text \<open>
  The operator handles every custom resource as a Python dictionary. A dictionary with
  a fixed set of keys is a record here, and a key that the code reads with \<open>.get\<close> is an
  \<open>option\<close> field (\<open>None\<close>: the key is absent). Dictionaries with free keys (labels,
  annotations, \<open>appliedMachines\<close>) are association lists in insertion order, looked up with
  \<open>map_of\<close>. Strings are compared and sorted as Python does, character by character
  (the order of \<open>Char_ord\<close> lifted by \<open>List_Lexorder\<close>).
\<close>

type_synonym dict = "(string \<times> string) list"

text \<open>A reference to a Secret, \<open>{"name": ...}\<close> (\<open>sshKeySecretRef\<close>, \<open>credentialsRef\<close>).\<close>

record secret_ref =
  ref_name :: string

record machine_spec =
  hostname :: "string option"
  ipAddress :: "string option"
  sshUser :: "string option"
  sshKeySecretRef :: "secret_ref option"

record machine_status =
  hasConfiguration :: "bool option"

text \<open>
  A Machine as the API returns it. \<open>metadata.name\<close> is present on every stored object;
  \<open>metadata.labels\<close>, \<open>metadata.annotations\<close>, \<open>spec\<close> and \<open>status\<close> may be absent.
\<close>

record machine =
  m_name :: string
  m_labels :: "dict option"
  m_annotations :: "dict option"
  m_spec :: "machine_spec option"
  m_status :: "machine_status option"

record machine_list =
  items :: "machine list option"

record additional_file =
  af_path :: string
  af_valueType :: string
  af_inline :: "string option"
  af_secretRef :: "secret_ref option"

record nixos_config_spec =
  nc_gitRepo :: "string option"
  nc_flake :: "string option"
  nc_onRemoveFlake :: "string option"
  nc_configurationSubdir :: "string option"
  nc_machineRef :: "string option"
  nc_fullInstall :: "bool option"
  nc_additionalFiles :: "additional_file list option"
  nc_ref :: "string option"
  nc_credentialsRef :: "secret_ref option"

record nixos_config_status =
  appliedCommit :: "string option"

text \<open>A NixosConfiguration as the API returns it.\<close>

record nixos_configuration =
  nc_labels :: "dict option"
  nc_spec :: "nixos_config_spec option"
  nc_status :: "nixos_config_status option"

record machine_selector =
  matchLabels :: "dict option"

record role_spec =
  machines :: "string list option"
  machineSelector :: "machine_selector option"
  count :: "int option"

record cluster_spec =
  gitRepo :: "string option"
  ref :: "string option"
  configurationSubdir :: "string option"
  credentialsRef :: "secret_ref option"
  controlPlane :: "role_spec option"
  dataPlane :: "role_spec option"

text \<open>
  The status of a KubernetesCluster as the handlers read it. Only three keys are read;
  \<open>st_other_keys\<close> says whether the dictionary holds any other key (\<open>phase\<close>,
  \<open>conditions\<close>, ...), which decides its truth value.
\<close>

record cluster_status =
  appliedMachines :: "dict option"
  selectedControlPlaneMachines :: "string list option"
  selectedDataPlaneMachines :: "string list option"
  st_other_keys :: bool

record cluster_body =
  deletionTimestamp :: "string option"
  uid :: "string option"
  b_status :: "cluster_status option"

record secret =
  s_data :: "dict option"

section \<open>Requests sent to the cluster API\<close>

record owner_reference =
  or_apiVersion :: string
  or_kind :: string
  or_name :: string
  or_uid :: string
  or_controller :: bool
  or_blockOwnerDeletion :: bool

text \<open>
  The body of a create request. \<open>cb_labels\<close> and \<open>cb_ownerReferences\<close> are empty when
  the metadata has no such key.
\<close>

record config_body =
  cb_apiVersion :: string
  cb_kind :: string
  cb_name :: string
  cb_labels :: dict
  cb_ownerReferences :: "owner_reference list"
  cb_spec :: nixos_config_spec

text \<open>A value of a merge patch: \<open>Null\<close> is Python's \<open>None\<close>, which removes the field.\<close>

datatype field_value = Null | Str string | Ref secret_ref

type_synonym spec_updates = "(string \<times> field_value) list"

record condition =
  c_type :: string
  c_status :: string
  c_lastTransitionTime :: string
  c_reason :: string
  c_message :: string

record status_update =
  su_phase :: string
  su_controlPlaneReady :: string
  su_dataPlaneReady :: string
  su_kubeconfigSecret :: string
  su_appliedMachines :: "dict option"
  su_selectedControlPlaneMachines :: "string list option"
  su_selectedDataPlaneMachines :: "string list option"
  su_conditions :: "condition list"

record secret_body =
  sb_name :: string
  sb_data :: dict

text \<open>
  One constructor per method of the client library that the code calls, with the
  arguments in the order group, version, namespace, plural, name, body.
\<close>

datatype api_call =
    GetNamespacedCustomObject string string string string string
  | ListNamespacedCustomObject string string string string
  | CreateNamespacedCustomObject string string string string config_body
  | PatchNamespacedCustomObject string string string string string spec_updates string
  | DeleteNamespacedCustomObject string string string string string
  | PatchNamespacedCustomObjectStatus string string string string string status_update
  | ReadNamespacedSecret string string
  | CreateNamespacedSecret string secret_body
  | DeleteNamespacedSecret string string

text \<open>
  Exceptions. An \<open>ApiException\<close> carries its HTTP status and the text \<open>str(e)\<close>; any other
  exception of a library is \<open>OtherException\<close> with its text.
\<close>

datatype error =
    ApiException int string
  | KeyError string
  | PermanentError string
  | TemporaryError string int
  | OtherException string

fun str_of_error :: "error \<Rightarrow> string" where
  "str_of_error (ApiException st txt) = txt"
| "str_of_error (KeyError k) = [CHR 0x27] @ k @ [CHR 0x27]"
| "str_of_error (PermanentError msg) = msg"
| "str_of_error (TemporaryError msg d) = msg"
| "str_of_error (OtherException txt) = txt"

datatype proc_outcome = Completed int string | TimeoutExpired | RunFailed error

text \<open>
  The world outside the operator. The API server answers a call as a function of the
  whole history of calls (newest first, the call being answered at the head), so nothing
  is assumed about what it stores or about who else writes to it. \<open>write_reply\<close>
  answers create, patch and delete calls (\<open>None\<close>: success). The remaining fields
  are the library functions and the processes that the code runs.
\<close>

type_synonym log = "api_call list"

record env =
  machine_reply :: "log \<Rightarrow> error + machine"
  machine_list_reply :: "log \<Rightarrow> error + machine_list"
  config_reply :: "log \<Rightarrow> error + nixos_configuration"
  secret_reply :: "log \<Rightarrow> error + secret"
  write_reply :: "log \<Rightarrow> error option"
  b64encode :: "string \<Rightarrow> string"
  b64decode :: "string \<Rightarrow> error + string"
  subprocess_run :: "string list \<Rightarrow> proc_outcome"
  mkstemp :: "error + string"
  yaml_reemit :: "string \<Rightarrow> error + string"
  utcnow :: string

section \<open>clients.py: the API gateway\<close>

definition get_machine ::
  "env \<Rightarrow> string \<Rightarrow> string \<Rightarrow> log \<Rightarrow> (error + machine) \<times> log" where
  "get_machine e machine_name namespace lg =
     (let lg' = GetNamespacedCustomObject ''nio.homystack.com'' ''v1alpha1'' namespace
                  ''machines'' machine_name # lg
      in (machine_reply e lg', lg'))"

definition list_machines :: "env \<Rightarrow> string \<Rightarrow> log \<Rightarrow> machine list \<times> log" where
  "list_machines e namespace lg =
     (let lg' = ListNamespacedCustomObject ''nio.homystack.com'' ''v1alpha1'' namespace
                  ''machines'' # lg
      in case machine_list_reply e lg' of
           Inr ms \<Rightarrow> ((case items ms of None \<Rightarrow> [] | Some xs \<Rightarrow> xs), lg')
         | Inl err \<Rightarrow> ([], lg'))"

definition get_nixos_configuration ::
  "env \<Rightarrow> string \<Rightarrow> string \<Rightarrow> log \<Rightarrow> (error + nixos_configuration) \<times> log" where
  "get_nixos_configuration e config_name namespace lg =
     (let lg' = GetNamespacedCustomObject ''nio.homystack.com'' ''v1alpha1'' namespace
                  ''nixosconfigurations'' config_name # lg
      in case config_reply e lg' of
           Inr c \<Rightarrow> (Inr c, lg')
         | Inl err \<Rightarrow> (Inl err, lg'))"

text \<open>A write call: the reply is an error or nothing.\<close>

definition write_call :: "env \<Rightarrow> api_call \<Rightarrow> log \<Rightarrow> (error + unit) \<times> log" where
  "write_call e c lg =
     (let lg' = c # lg
      in case write_reply e lg' of
           None \<Rightarrow> (Inr (), lg')
         | Some err \<Rightarrow> (Inl err, lg'))"

definition create_secret ::
  "env \<Rightarrow> string \<Rightarrow> string \<Rightarrow> dict \<Rightarrow> log \<Rightarrow> (error + unit) \<times> log" where
  "create_secret e secret_name namespace data lg =
     write_call e
       (CreateNamespacedSecret namespace
          \<lparr>sb_name = secret_name, sb_data = map (\<lambda>(k, v). (k, b64encode e v)) data\<rparr>) lg"

definition delete_secret :: "env \<Rightarrow> string \<Rightarrow> string \<Rightarrow> log \<Rightarrow> (error + unit) \<times> log" where
  "delete_secret e secret_name namespace lg =
     write_call e (DeleteNamespacedSecret secret_name namespace) lg"

text \<open>
  \<open>get_secret_data\<close> decodes every value of the secret; an empty value is decoded to the
  empty string without a call of the decoder, and the first failing value raises.
\<close>

fun decode_items :: "env \<Rightarrow> dict \<Rightarrow> error + dict" where
  "decode_items e [] = Inr []"
| "decode_items e ((k, v) # kvs) =
     (case (if v \<noteq> [] then b64decode e v else Inr []) of
        Inl err \<Rightarrow> Inl err
      | Inr d \<Rightarrow> (case decode_items e kvs of
                    Inl err \<Rightarrow> Inl err
                  | Inr ds \<Rightarrow> Inr ((k, d) # ds)))"

definition get_secret_data ::
  "env \<Rightarrow> string \<Rightarrow> string \<Rightarrow> log \<Rightarrow> (error + dict) \<times> log" where
  "get_secret_data e secret_name namespace lg =
     (let lg' = ReadNamespacedSecret secret_name namespace # lg
      in case secret_reply e lg' of
           Inl err \<Rightarrow> (Inl err, lg')
         | Inr s \<Rightarrow>
             (case s_data s of
                None \<Rightarrow> (Inr [], lg')
              | Some d \<Rightarrow> (if d = [] then (Inr [], lg') else (decode_items e d, lg'))))"

definition create_nixos_configuration ::
  "env \<Rightarrow> string \<Rightarrow> string \<Rightarrow> nixos_config_spec \<Rightarrow> log \<Rightarrow> (error + unit) \<times> log" where
  "create_nixos_configuration e config_name namespace spec lg =
     write_call e
       (CreateNamespacedCustomObject ''nio.homystack.com'' ''v1alpha1'' namespace
          ''nixosconfigurations''
          \<lparr>cb_apiVersion = ''nio.homystack.com/v1alpha1'', cb_kind = ''NixosConfiguration'',
           cb_name = config_name, cb_labels = [], cb_ownerReferences = [],
           cb_spec = spec\<rparr>) lg"

definition create_nixos_configuration_with_owner ::
  "env \<Rightarrow> string \<Rightarrow> string \<Rightarrow> nixos_config_spec \<Rightarrow> string \<Rightarrow> string \<Rightarrow> string \<Rightarrow> log
     \<Rightarrow> (error + unit) \<times> log" where
  "create_nixos_configuration_with_owner e config_name namespace spec owner_name owner_uid
     role lg =
     write_call e
       (CreateNamespacedCustomObject ''nio.homystack.com'' ''v1alpha1'' namespace
          ''nixosconfigurations''
          \<lparr>cb_apiVersion = ''nio.homystack.com/v1alpha1'', cb_kind = ''NixosConfiguration'',
           cb_name = config_name,
           cb_labels = [(''nico.homystack.com/cluster'', owner_name),
                        (''nico.homystack.com/role'', role)],
           cb_ownerReferences =
             [\<lparr>or_apiVersion = ''nico.homystack.com/v1alpha1'', or_kind = ''KubernetesCluster'',
               or_name = owner_name, or_uid = owner_uid, or_controller = True,
               or_blockOwnerDeletion = True\<rparr>],
           cb_spec = spec\<rparr>) lg"

definition delete_nixos_configuration ::
  "env \<Rightarrow> string \<Rightarrow> string \<Rightarrow> log \<Rightarrow> (error + unit) \<times> log" where
  "delete_nixos_configuration e config_name namespace lg =
     write_call e
       (DeleteNamespacedCustomObject ''nio.homystack.com'' ''v1alpha1'' namespace
          ''nixosconfigurations'' config_name) lg"

definition patch_nixos_configuration_spec ::
  "env \<Rightarrow> string \<Rightarrow> string \<Rightarrow> spec_updates \<Rightarrow> log \<Rightarrow> (error + unit) \<times> log" where
  "patch_nixos_configuration_spec e config_name namespace updates lg =
     write_call e
       (PatchNamespacedCustomObject ''nio.homystack.com'' ''v1alpha1'' namespace
          ''nixosconfigurations'' config_name updates ''application/merge-patch+json'') lg"

definition update_cluster_status ::
  "env \<Rightarrow> string \<Rightarrow> string \<Rightarrow> status_update \<Rightarrow> log \<Rightarrow> (error + unit) \<times> log" where
  "update_cluster_status e cluster_name namespace status_updates lg =
     write_call e
       (PatchNamespacedCustomObjectStatus ''nico.homystack.com'' ''v1alpha1'' namespace
          ''kubernetesclusters'' cluster_name status_updates) lg"

text \<open>The handlers also read a Secret directly, through \<open>core_v1.read_namespaced_secret\<close>.\<close>

definition read_namespaced_secret ::
  "env \<Rightarrow> string \<Rightarrow> string \<Rightarrow> log \<Rightarrow> (error + secret) \<times> log" where
  "read_namespaced_secret e secret_name namespace lg =
     (let lg' = ReadNamespacedSecret secret_name namespace # lg
      in (secret_reply e lg', lg'))"

section \<open>kubernetescluster_handlers.py: machine selection\<close>

text \<open>\<open>xs[:n]\<close> of Python: a negative bound counts from the end.\<close>

definition py_slice_to :: "'a list \<Rightarrow> int \<Rightarrow> 'a list" where
  "py_slice_to xs n =
     (if 0 \<le> n then take (nat n) xs else take (nat (int (length xs) + n)) xs)"

text \<open>
  The inner loop over \<open>matchLabels.items()\<close>: it stops with \<open>match = False\<close> at the first
  pair that the machine's labels do not carry.
\<close>

fun labels_match :: "dict \<Rightarrow> dict \<Rightarrow> bool" where
  "labels_match machine_labels [] = True"
| "labels_match machine_labels ((k, v) # kvs) =
     (if map_of machine_labels k \<noteq> Some v then False else labels_match machine_labels kvs)"

text \<open>\<open>not machine.get("status", {}).get("hasConfiguration", True)\<close>\<close>

definition machine_available :: "machine \<Rightarrow> bool" where
  "machine_available m =
     (\<not> (case m_status m of
           None \<Rightarrow> True
         | Some st \<Rightarrow> (case hasConfiguration st of None \<Rightarrow> True | Some b \<Rightarrow> b)))"

text \<open>The loop over the machines; \<open>selected_machines\<close> is the list built so far.\<close>

fun filter_machines :: "dict \<Rightarrow> machine list \<Rightarrow> string list \<Rightarrow> string list" where
  "filter_machines match_labels [] selected_machines = selected_machines"
| "filter_machines match_labels (m # ms) selected_machines =
     (let machine_labels = (case m_labels m of None \<Rightarrow> [] | Some l \<Rightarrow> l);
          match = labels_match machine_labels match_labels
      in if match \<and> machine_available m
         then filter_machines match_labels ms (selected_machines @ [m_name m])
         else filter_machines match_labels ms selected_machines)"

text \<open>\<open>cluster_spec.get(role, {})\<close>: the two role blocks are the only blocks of a spec.\<close>

definition get_role_spec :: "cluster_spec \<Rightarrow> string \<Rightarrow> role_spec" where
  "get_role_spec cluster_spec role =
     (case (if role = ''controlPlane'' then controlPlane cluster_spec
            else if role = ''dataPlane'' then dataPlane cluster_spec
            else None) of
        None \<Rightarrow> \<lparr>machines = None, machineSelector = None, count = None\<rparr>
      | Some rs \<Rightarrow> rs)"

text \<open>Truth value of the status dictionary: it holds at least one key.\<close>

definition status_truthy :: "cluster_status \<Rightarrow> bool" where
  "status_truthy st =
     (appliedMachines st \<noteq> None \<or> selectedControlPlaneMachines st \<noteq> None \<or>
      selectedDataPlaneMachines st \<noteq> None \<or> st_other_keys st)"

text \<open>
  The persisted selection of a role: \<open>None\<close> when the status is \<open>None\<close> or empty, when the
  role has no status key, or when the list under the key is absent or empty.
\<close>

definition previously_selected :: "cluster_status option \<Rightarrow> string \<Rightarrow> string list option" where
  "previously_selected current_status role =
     (case current_status of
        None \<Rightarrow> None
      | Some st \<Rightarrow>
          if status_truthy st then
            (case (if role = ''controlPlane'' then Some (selectedControlPlaneMachines st)
                   else if role = ''dataPlane'' then Some (selectedDataPlaneMachines st)
                   else None) of
               None \<Rightarrow> None
             | Some field \<Rightarrow>
                 (case field of
                    None \<Rightarrow> None
                  | Some prev \<Rightarrow> if prev \<noteq> [] then Some prev else None))
          else None)"

text \<open>
  \<open>select_machines_for_cluster\<close>. The metrics that it records do not influence the
  result and are left out.
\<close>

definition select_machines_for_cluster ::
  "env \<Rightarrow> cluster_spec \<Rightarrow> string \<Rightarrow> string \<Rightarrow> string \<Rightarrow> cluster_status option \<Rightarrow> log
     \<Rightarrow> string list \<times> log" where
  "select_machines_for_cluster e cluster_spec namespace role cluster_name current_status lg =
     (let role_spec = get_role_spec cluster_spec role
      in case (case machines role_spec of
                 None \<Rightarrow> None
               | Some l \<Rightarrow> if l \<noteq> [] then Some l else None) of
           Some selected \<Rightarrow> (selected, lg)
         | None \<Rightarrow>
             (case previously_selected current_status role of
                Some prev \<Rightarrow> (prev, lg)
              | None \<Rightarrow>
                  (let machine_selector =
                         (case machineSelector role_spec of
                            None \<Rightarrow> \<lparr>matchLabels = None\<rparr>
                          | Some ms \<Rightarrow> ms);
                       cnt = (case count role_spec of None \<Rightarrow> 0 | Some c \<Rightarrow> c)
                   in if cnt = 0 then ([], lg)
                      else
                        (let (ms, lg') = list_machines e namespace lg;
                             selected_machines =
                               filter_machines
                                 (case matchLabels machine_selector of
                                    None \<Rightarrow> []
                                  | Some l \<Rightarrow> l) ms []
                         in (py_slice_to (sort selected_machines) cnt, lg')))))"

section \<open>kubernetescluster_handlers.py: the phase of a cluster\<close>

text \<open>The two flags and the phase that \<open>monitor_cluster_status\<close> derives from its counters.\<close>

definition all_control_plane_ready :: "nat \<Rightarrow> nat \<Rightarrow> bool" where
  "all_control_plane_ready control_plane_ready total_control_plane =
     (control_plane_ready = total_control_plane \<and> control_plane_ready > 0)"

definition all_workers_ready :: "nat \<Rightarrow> nat \<Rightarrow> bool" where
  "all_workers_ready data_plane_ready total_data_plane =
     ((data_plane_ready = total_data_plane \<and> total_data_plane > 0) \<or> total_data_plane = 0)"

definition cluster_phase :: "nat \<Rightarrow> nat \<Rightarrow> nat \<Rightarrow> nat \<Rightarrow> string" where
  "cluster_phase control_plane_ready total_control_plane data_plane_ready total_data_plane =
     (if all_control_plane_ready control_plane_ready total_control_plane
         \<and> all_workers_ready data_plane_ready total_data_plane then ''Ready''
      else if all_control_plane_ready control_plane_ready total_control_plane
      then ''ControlPlaneReady''
      else ''Provisioning'')"

section \<open>kubernetescluster_handlers.py: strings and dictionaries of Python\<close>

text \<open>\<open>sub in s\<close> on strings.\<close>

fun py_in :: "string \<Rightarrow> string \<Rightarrow> bool" where
  "py_in sub [] = (sub = [])"
| "py_in sub (c # cs) = (take (length sub) (c # cs) = sub \<or> py_in sub cs)"

text \<open>\<open>s.lower()\<close> on the ASCII letters; every other character is left as it is.\<close>

definition py_lower :: "string \<Rightarrow> string" where
  "py_lower s =
     map (\<lambda>c. if CHR ''A'' \<le> c \<and> c \<le> CHR ''Z'' then char_of (of_char c + (32::nat)) else c) s"

text \<open>\<open>sep.join(xs)\<close>\<close>

fun join :: "string \<Rightarrow> string list \<Rightarrow> string" where
  "join sep [] = []"
| "join sep [x] = x"
| "join sep (x # y # ys) = x @ sep @ join sep (y # ys)"

text \<open>\<open>str(n)\<close> for a length, in decimal.\<close>

fun str_of_nat :: "nat \<Rightarrow> string" where
  "str_of_nat n =
     (if n < 10 then [char_of (48 + n)]
      else str_of_nat (n div 10) @ [char_of (48 + n mod 10)])"

text \<open>\<open>d[k] = v\<close>: the value of an existing key is replaced in place, a new key goes last.\<close>

fun dict_set :: "'k \<Rightarrow> 'v \<Rightarrow> ('k \<times> 'v) list \<Rightarrow> ('k \<times> 'v) list" where
  "dict_set k v [] = [(k, v)]"
| "dict_set k v ((k', v') # kvs) =
     (if k' = k then (k, v) # kvs else (k', v') # dict_set k v kvs)"

text \<open>Truth value of an optional string: present and not empty.\<close>

definition truthy_str :: "string option \<Rightarrow> bool" where
  "truthy_str x = (case x of None \<Rightarrow> False | Some s \<Rightarrow> s \<noteq> [])"

section \<open>kubernetescluster_handlers.py: the topology document\<close>

record machine_info =
  mi_hostname :: "string option"
  mi_ipAddress :: "string option"

text \<open>\<open>machine_info.get("ipAddress") or machine_info.get("hostname", "unknown")\<close>\<close>

definition node_ip :: "(string \<times> machine_info) list \<Rightarrow> string \<Rightarrow> string" where
  "node_ip machines_info node_name =
     (let info = (case map_of machines_info node_name of
                    None \<Rightarrow> \<lparr>mi_hostname = None, mi_ipAddress = None\<rparr>
                  | Some i \<Rightarrow> i)
      in if truthy_str (mi_ipAddress info) then the (mi_ipAddress info)
         else (case mi_hostname info of None \<Rightarrow> ''unknown'' | Some h \<Rightarrow> h))"

definition nix_node :: "(string \<times> machine_info) list \<Rightarrow> string \<Rightarrow> string" where
  "nix_node machines_info node_name =
     ''    { name = '' @ [CHR 0x22] @ node_name @ [CHR 0x22] @ ''; ip = '' @ [CHR 0x22]
       @ node_ip machines_info node_name @ [CHR 0x22] @ ''; }''"

definition nix_list :: "(string \<times> machine_info) list \<Rightarrow> string list \<Rightarrow> string" where
  "nix_list machines_info nodes =
     ''['' @ [CHR 0x0A] @ join [CHR 0x0A] (map (nix_node machines_info) nodes)
       @ [CHR 0x0A] @ ''  ]''"

definition generate_cluster_config ::
  "string \<Rightarrow> string list \<Rightarrow> string list \<Rightarrow> (string \<times> machine_info) list \<Rightarrow> string" where
  "generate_cluster_config cluster_name control_plane_nodes worker_nodes machines_info =
     [CHR 0x0A] @ ''{ config, pkgs, ... }:'' @ [CHR 0x0A]
     @ ''{'' @ [CHR 0x0A]
     @ ''  # Cluster configuration generated by NICO'' @ [CHR 0x0A]
     @ ''  # Includes IP addresses for HAProxy configuration at build time'' @ [CHR 0x0A]
     @ ''  cluster = {'' @ [CHR 0x0A]
     @ ''    name = '' @ [CHR 0x22] @ cluster_name @ [CHR 0x22] @ '';'' @ [CHR 0x0A]
     @ ''    controlPlane = '' @ nix_list machines_info control_plane_nodes @ '';'' @ [CHR 0x0A]
     @ ''    workers = '' @ nix_list machines_info worker_nodes @ '';'' @ [CHR 0x0A]
     @ ''  };'' @ [CHR 0x0A]
     @ ''}'' @ [CHR 0x0A]"

section \<open>kubernetescluster_handlers.py: the join token and the children\<close>

definition create_join_token_secret ::
  "env \<Rightarrow> string \<Rightarrow> string \<Rightarrow> log \<Rightarrow> (error + string) \<times> log" where
  "create_join_token_secret e cluster_name namespace lg =
     (let token_content = ''join-token-for-'' @ cluster_name;
          secret_name = cluster_name @ ''-join-token''
      in case read_namespaced_secret e secret_name namespace lg of
           (Inr existing_secret, lg1) \<Rightarrow> (Inr secret_name, lg1)
         | (Inl (ApiException st txt), lg1) \<Rightarrow>
             if st = 404 then
               (case create_secret e secret_name namespace [(''token'', token_content)] lg1 of
                  (Inl err, lg2) \<Rightarrow> (Inl err, lg2)
                | (Inr u, lg2) \<Rightarrow> (Inr secret_name, lg2))
             else (Inl (ApiException st txt), lg1)
         | (Inl err, lg1) \<Rightarrow> (Inl err, lg1))"

definition create_nixos_configuration_for_machine ::
  "env \<Rightarrow> string \<Rightarrow> string \<Rightarrow> string \<Rightarrow> string \<Rightarrow> cluster_spec \<Rightarrow> string \<Rightarrow> string
     \<Rightarrow> string list \<Rightarrow> string list \<Rightarrow> (string \<times> machine_info) list \<Rightarrow> log
     \<Rightarrow> (error + string) \<times> log" where
  "create_nixos_configuration_for_machine e cluster_name cluster_uid machine_name role
     cluster_spec namespace join_token_secret control_plane_nodes worker_nodes machines_info lg =
     (case get_machine e machine_name namespace lg of
        (Inl err, lg1) \<Rightarrow> (Inl err, lg1)
      | (Inr machine, lg1) \<Rightarrow>
          (let annotations = (case m_annotations machine of None \<Rightarrow> [] | Some a \<Rightarrow> a);
               has_full_install =
                 map_of annotations ''nico.homystack.com/fullInstallationApplied''
           in case m_spec machine of
                None \<Rightarrow> (Inl (KeyError ''spec''), lg1)
              | Some mspec \<Rightarrow>
                  (let ssh_key_secret =
                         (case sshKeySecretRef mspec of
                            None \<Rightarrow> None
                          | Some r \<Rightarrow> Some (ref_name r));
                       additional_files =
                         [\<lparr>af_path = ''cluster.nix'', af_valueType = ''Inline'',
                           af_inline = Some (generate_cluster_config cluster_name
                                               control_plane_nodes worker_nodes machines_info),
                           af_secretRef = None\<rparr>,
                          \<lparr>af_path = ''join-token'', af_valueType = ''SecretRef'',
                           af_inline = None,
                           af_secretRef = Some \<lparr>ref_name = join_token_secret\<rparr>\<rparr>]
                         @ (if truthy_str ssh_key_secret
                            then [\<lparr>af_path = ''machine-ssh-key'', af_valueType = ''SecretRef'',
                                   af_inline = None,
                                   af_secretRef = Some \<lparr>ref_name = the ssh_key_secret\<rparr>\<rparr>]
                            else []);
                       config_name = cluster_name @ ''-'' @ machine_name
                   in case gitRepo cluster_spec of
                        None \<Rightarrow> (Inl (KeyError ''gitRepo''), lg1)
                      | Some git_repo \<Rightarrow>
                          (let nixos_config_spec =
                                 \<lparr>nc_gitRepo = Some git_repo,
                                  nc_flake = Some (''#'' @ machine_name),
                                  nc_onRemoveFlake = Some ''#minimal'',
                                  nc_configurationSubdir =
                                    Some (case configurationSubdir cluster_spec of
                                            None \<Rightarrow> [] | Some d \<Rightarrow> d),
                                  nc_machineRef = Some machine_name,
                                  nc_fullInstall = Some (\<not> truthy_str has_full_install),
                                  nc_additionalFiles = Some additional_files,
                                  nc_ref = (if truthy_str (ref cluster_spec)
                                            then ref cluster_spec else None),
                                  nc_credentialsRef = credentialsRef cluster_spec\<rparr>
                           in case create_nixos_configuration_with_owner e config_name namespace
                                     nixos_config_spec cluster_name cluster_uid role lg1 of
                                (Inl err, lg2) \<Rightarrow> (Inl err, lg2)
                              | (Inr u, lg2) \<Rightarrow> (Inr config_name, lg2)))))"

text \<open>
  Drift repair: the dictionary \<open>spec_updates\<close> that the reconciler builds from the parent
  spec and the spec of an existing child. \<open>spec["gitRepo"]\<close> raises when the parent has no
  \<open>gitRepo\<close>. Each of the four keys is assigned at most once, so every assignment adds
  its key at the end.
\<close>

definition opt_str :: "string option \<Rightarrow> field_value" where
  "opt_str x = (case x of None \<Rightarrow> Null | Some s \<Rightarrow> Str s)"

definition opt_ref :: "secret_ref option \<Rightarrow> field_value" where
  "opt_ref x = (case x of None \<Rightarrow> Null | Some r \<Rightarrow> Ref r)"

definition compute_spec_updates :: "cluster_spec \<Rightarrow> nixos_config_spec \<Rightarrow> error + spec_updates" where
  "compute_spec_updates spec existing_spec =
     (case (if nc_gitRepo existing_spec \<noteq> gitRepo spec
            then (case gitRepo spec of
                    None \<Rightarrow> Inl (KeyError ''gitRepo'')
                  | Some g \<Rightarrow> Inr [(''gitRepo'', Str g)])
            else Inr []) of
        Inl err \<Rightarrow> Inl err
      | Inr u1 \<Rightarrow>
          (let cluster_ref = ref spec;
               existing_ref = nc_ref existing_spec;
               u2 = (if cluster_ref \<noteq> existing_ref
                     then u1 @ [(''ref'', opt_str cluster_ref)] else u1);
               cluster_subdir = (case configurationSubdir spec of None \<Rightarrow> [] | Some d \<Rightarrow> d);
               existing_subdir =
                 (case nc_configurationSubdir existing_spec of None \<Rightarrow> [] | Some d \<Rightarrow> d);
               u3 = (if cluster_subdir \<noteq> existing_subdir
                     then u2 @ [(''configurationSubdir'', Str cluster_subdir)] else u2);
               cluster_creds = credentialsRef spec;
               existing_creds = nc_credentialsRef existing_spec;
               u4 = (if cluster_creds \<noteq> existing_creds
                     then u3 @ [(''credentialsRef'', opt_ref cluster_creds)] else u3)
           in Inr u4))"

definition empty_config_spec :: nixos_config_spec where
  "empty_config_spec =
     \<lparr>nc_gitRepo = None, nc_flake = None, nc_onRemoveFlake = None,
      nc_configurationSubdir = None, nc_machineRef = None, nc_fullInstall = None,
      nc_additionalFiles = None, nc_ref = None, nc_credentialsRef = None\<rparr>"

text \<open>
  The body of the \<open>try\<close> in the loops of the reconciler: read the child and, when it
  exists, patch the fields that changed.
\<close>

definition repair_existing ::
  "env \<Rightarrow> cluster_spec \<Rightarrow> string \<Rightarrow> string \<Rightarrow> log \<Rightarrow> (error + unit) \<times> log" where
  "repair_existing e spec config_name namespace lg =
     (case get_nixos_configuration e config_name namespace lg of
        (Inl err, lg1) \<Rightarrow> (Inl err, lg1)
      | (Inr existing_config, lg1) \<Rightarrow>
          (let existing_spec =
                 (case nc_spec existing_config of None \<Rightarrow> empty_config_spec | Some sp \<Rightarrow> sp)
           in case compute_spec_updates spec existing_spec of
                Inl err \<Rightarrow> (Inl err, lg1)
              | Inr updates \<Rightarrow>
                  if updates \<noteq> []
                  then patch_nixos_configuration_spec e config_name namespace updates lg1
                  else (Inr (), lg1)))"

text \<open>
  One round of a loop: the \<open>try\<close> and its \<open>except Exception\<close>, which creates the child
  when the text of the exception mentions a 404.
\<close>

definition ensure_configuration ::
  "env \<Rightarrow> string \<Rightarrow> string \<Rightarrow> string \<Rightarrow> string \<Rightarrow> cluster_spec \<Rightarrow> string \<Rightarrow> string
     \<Rightarrow> string list \<Rightarrow> string list \<Rightarrow> (string \<times> machine_info) list \<Rightarrow> log
     \<Rightarrow> (error + string) \<times> log" where
  "ensure_configuration e name cluster_uid machine_name role spec namespace join_token_secret
     control_plane_nodes worker_nodes machines_info lg =
     (let config_name = name @ ''-'' @ machine_name
      in case repair_existing e spec config_name namespace lg of
           (Inr u, lg1) \<Rightarrow> (Inr config_name, lg1)
         | (Inl err, lg1) \<Rightarrow>
             if py_in ''404'' (str_of_error err)
                \<or> py_in ''not found'' (py_lower (str_of_error err))
             then create_nixos_configuration_for_machine e name cluster_uid machine_name role
                    spec namespace join_token_secret control_plane_nodes worker_nodes
                    machines_info lg1
             else (Inl err, lg1))"

text \<open>
  The two loops of the reconciler have the same body; they differ in the role label
  (\<open>control-plane\<close>, \<open>worker\<close>) and share the dictionary \<open>applied_configs\<close>.
\<close>

fun ensure_configurations ::
  "env \<Rightarrow> string \<Rightarrow> string \<Rightarrow> string \<Rightarrow> cluster_spec \<Rightarrow> string \<Rightarrow> string
     \<Rightarrow> string list \<Rightarrow> string list \<Rightarrow> (string \<times> machine_info) list
     \<Rightarrow> string list \<Rightarrow> dict \<Rightarrow> log \<Rightarrow> (error + dict) \<times> log" where
  "ensure_configurations e name cluster_uid role spec namespace join_token_secret
     control_plane_nodes worker_nodes machines_info [] applied_configs lg =
     (Inr applied_configs, lg)"
| "ensure_configurations e name cluster_uid role spec namespace join_token_secret
     control_plane_nodes worker_nodes machines_info (machine_name # rest) applied_configs lg =
     (case ensure_configuration e name cluster_uid machine_name role spec namespace
             join_token_secret control_plane_nodes worker_nodes machines_info lg of
        (Inl err, lg1) \<Rightarrow> (Inl err, lg1)
      | (Inr config_name, lg1) \<Rightarrow>
          ensure_configurations e name cluster_uid role spec namespace join_token_secret
            control_plane_nodes worker_nodes machines_info rest
            (dict_set machine_name config_name applied_configs) lg1)"

text \<open>The loop that collects \<open>machines_info\<close>.\<close>

fun collect_machines_info ::
  "env \<Rightarrow> string \<Rightarrow> string list \<Rightarrow> (string \<times> machine_info) list \<Rightarrow> log
     \<Rightarrow> (error + (string \<times> machine_info) list) \<times> log" where
  "collect_machines_info e namespace [] machines_info lg = (Inr machines_info, lg)"
| "collect_machines_info e namespace (machine_name # rest) machines_info lg =
     (case get_machine e machine_name namespace lg of
        (Inl err, lg1) \<Rightarrow> (Inl err, lg1)
      | (Inr machine, lg1) \<Rightarrow>
          (case m_spec machine of
             None \<Rightarrow> (Inl (KeyError ''spec''), lg1)
           | Some mspec \<Rightarrow>
               collect_machines_info e namespace rest
                 (dict_set machine_name
                    \<lparr>mi_hostname = Some (case hostname mspec of None \<Rightarrow> [] | Some h \<Rightarrow> h),
                     mi_ipAddress = Some (case ipAddress mspec of None \<Rightarrow> [] | Some a \<Rightarrow> a)\<rparr>
                    machines_info) lg1))"

section \<open>kubernetescluster_handlers.py: deletion and reconciliation\<close>

definition empty_status :: cluster_status where
  "empty_status =
     \<lparr>appliedMachines = None, selectedControlPlaneMachines = None,
      selectedDataPlaneMachines = None, st_other_keys = False\<rparr>"

text \<open>The loop of \<open>handle_cluster_deletion\<close>: a failed delete is logged and skipped.\<close>

fun delete_configurations :: "env \<Rightarrow> string \<Rightarrow> dict \<Rightarrow> log \<Rightarrow> log" where
  "delete_configurations e namespace [] lg = lg"
| "delete_configurations e namespace ((machine_name, config_name) # rest) lg =
     delete_configurations e namespace rest
       (snd (delete_nixos_configuration e config_name namespace lg))"

definition handle_cluster_deletion :: "env \<Rightarrow> string \<Rightarrow> string \<Rightarrow> cluster_body \<Rightarrow> log \<Rightarrow> log" where
  "handle_cluster_deletion e cluster_name namespace body lg =
     (let status = (case b_status body of None \<Rightarrow> empty_status | Some st \<Rightarrow> st);
          applied_configs = (case appliedMachines status of None \<Rightarrow> [] | Some a \<Rightarrow> a);
          lg1 = delete_configurations e namespace applied_configs lg;
          lg2 = snd (delete_secret e (cluster_name @ ''-join-token'') namespace lg1);
          lg3 = snd (delete_secret e (cluster_name @ ''-kubeconfig'') namespace lg2)
      in lg3)"

text \<open>The status that the reconciler writes at the end of a successful run.\<close>

definition provisioning_status ::
  "env \<Rightarrow> string \<Rightarrow> string list \<Rightarrow> string list \<Rightarrow> dict \<Rightarrow> status_update" where
  "provisioning_status e name control_plane_nodes worker_nodes applied_configs =
     \<lparr>su_phase = ''Provisioning'',
      su_controlPlaneReady = ''0/'' @ str_of_nat (length control_plane_nodes),
      su_dataPlaneReady = ''0/'' @ str_of_nat (length worker_nodes),
      su_kubeconfigSecret = name @ ''-kubeconfig'',
      su_appliedMachines = Some applied_configs,
      su_selectedControlPlaneMachines = Some control_plane_nodes,
      su_selectedDataPlaneMachines = Some worker_nodes,
      su_conditions =
        [\<lparr>c_type = ''Provisioning'', c_status = ''True'',
          c_lastTransitionTime = utcnow e @ ''Z'',
          c_reason = ''ConfigurationsCreated'',
          c_message =
            ''Created configurations for '' @ str_of_nat (length applied_configs)
            @ '' machines''\<rparr>]\<rparr>"

text \<open>The body of the \<open>try\<close> of \<open>reconcile_kubernetes_cluster\<close>.\<close>

definition reconcile_steps ::
  "env \<Rightarrow> cluster_body \<Rightarrow> cluster_spec \<Rightarrow> string \<Rightarrow> string \<Rightarrow> log \<Rightarrow> (error + unit) \<times> log" where
  "reconcile_steps e body spec name namespace lg =
     (if truthy_str (deletionTimestamp body)
      then (Inr (), handle_cluster_deletion e name namespace body lg)
      else if \<not> truthy_str (uid body)
      then (Inl (PermanentError ''Cluster UID not found in metadata''), lg)
      else
        (let cluster_uid = the (uid body);
             current_status = (case b_status body of None \<Rightarrow> empty_status | Some st \<Rightarrow> st);
             (control_plane_nodes, lg1) =
               select_machines_for_cluster e spec namespace ''controlPlane'' name
                 (Some current_status) lg;
             (worker_nodes, lg2) =
               select_machines_for_cluster e spec namespace ''dataPlane'' name
                 (Some current_status) lg1
         in if control_plane_nodes = []
            then (Inl (TemporaryError ''No available control plane machines found'' 60), lg2)
            else
              (case create_join_token_secret e name namespace lg2 of
                 (Inl err, lg3) \<Rightarrow> (Inl err, lg3)
               | (Inr join_token_secret, lg3) \<Rightarrow>
                   (case collect_machines_info e namespace (control_plane_nodes @ worker_nodes)
                           [] lg3 of
                      (Inl err, lg4) \<Rightarrow> (Inl err, lg4)
                    | (Inr machines_info, lg4) \<Rightarrow>
                        (case ensure_configurations e name cluster_uid ''control-plane'' spec
                                namespace join_token_secret control_plane_nodes worker_nodes
                                machines_info control_plane_nodes [] lg4 of
                           (Inl err, lg5) \<Rightarrow> (Inl err, lg5)
                         | (Inr applied_cp, lg5) \<Rightarrow>
                             (case ensure_configurations e name cluster_uid ''worker'' spec
                                     namespace join_token_secret control_plane_nodes
                                     worker_nodes machines_info worker_nodes applied_cp lg5 of
                                (Inl err, lg6) \<Rightarrow> (Inl err, lg6)
                              | (Inr applied_configs, lg6) \<Rightarrow>
                                  update_cluster_status e name namespace
                                    (provisioning_status e name control_plane_nodes
                                       worker_nodes applied_configs)
                                    lg6))))))"

text \<open>
  \<open>reconcile_kubernetes_cluster\<close>: temporary and permanent errors pass, every other
  exception becomes a temporary error.
\<close>

definition reconcile_kubernetes_cluster ::
  "env \<Rightarrow> cluster_body \<Rightarrow> cluster_spec \<Rightarrow> string \<Rightarrow> string \<Rightarrow> log \<Rightarrow> (error + unit) \<times> log" where
  "reconcile_kubernetes_cluster e body spec name namespace lg =
     (case reconcile_steps e body spec name namespace lg of
        (Inr u, lg') \<Rightarrow> (Inr (), lg')
      | (Inl (TemporaryError msg d), lg') \<Rightarrow> (Inl (TemporaryError msg d), lg')
      | (Inl (PermanentError msg), lg') \<Rightarrow> (Inl (PermanentError msg), lg')
      | (Inl err, lg') \<Rightarrow>
          (Inl (TemporaryError (''Cluster reconciliation failed: '' @ str_of_error err) 60),
           lg'))"

section \<open>kubernetescluster_handlers.py: the kubeconfig of the control plane\<close>

definition kubeconfig_paths :: "string list" where
  "kubeconfig_paths =
     [''/etc/rancher/k3s/k3s.yaml'', ''/var/lib/k0s/pki/admin.conf'',
      ''/etc/kubernetes/admin.conf'', ''/root/.kube/config'', ''/etc/kubernetes/kubeconfig'']"

text \<open>\<open>s.strip()\<close> is not empty: some character of \<open>s\<close> is not ASCII white space.\<close>

definition py_isspace :: "char \<Rightarrow> bool" where
  "py_isspace c = ((of_char c :: nat) \<in> {9, 10, 11, 12, 13, 28, 29, 30, 31, 32})"

definition strip_truthy :: "string \<Rightarrow> bool" where
  "strip_truthy s = list_ex (\<lambda>c. \<not> py_isspace c) s"

text \<open>The loop over the known paths: the first command that succeeds with output wins.\<close>

fun try_kubeconfig_paths :: "env \<Rightarrow> string list \<Rightarrow> string list \<Rightarrow> string option" where
  "try_kubeconfig_paths e ssh_base [] = None"
| "try_kubeconfig_paths e ssh_base (path # rest) =
     (case subprocess_run e (ssh_base @ [''cat '' @ path]) of
        Completed returncode out \<Rightarrow>
          if returncode = 0 \<and> strip_truthy out then Some out
          else try_kubeconfig_paths e ssh_base rest
      | TimeoutExpired \<Rightarrow> try_kubeconfig_paths e ssh_base rest
      | RunFailed err \<Rightarrow> try_kubeconfig_paths e ssh_base rest)"

text \<open>
  The commands run once the connection details are known. Writing and removing the key
  file are taken to succeed.
\<close>

definition fetch_kubeconfig :: "env \<Rightarrow> string list \<Rightarrow> string option" where
  "fetch_kubeconfig e ssh_base =
     (let from_paths = try_kubeconfig_paths e ssh_base kubeconfig_paths;
          kubeconfig_content =
            (if \<not> truthy_str from_paths
             then (case subprocess_run e (ssh_base @ [''kubectl config view --raw'']) of
                     Completed returncode out \<Rightarrow>
                       if returncode = 0 \<and> strip_truthy out then Some out else from_paths
                   | TimeoutExpired \<Rightarrow> from_paths
                   | RunFailed err \<Rightarrow> from_paths)
             else from_paths)
      in if truthy_str kubeconfig_content
         then (case yaml_reemit e (the kubeconfig_content) of
                 Inr doc \<Rightarrow> Some doc
               | Inl err \<Rightarrow> kubeconfig_content)
         else None)"

definition extract_kubeconfig_from_control_plane ::
  "env \<Rightarrow> string list \<Rightarrow> string \<Rightarrow> log \<Rightarrow> string option \<times> log" where
  "extract_kubeconfig_from_control_plane e control_plane_nodes namespace lg =
     (case control_plane_nodes of
        [] \<Rightarrow> (None, lg)
      | first_cp # others \<Rightarrow>
          (case get_machine e first_cp namespace lg of
             (Inl err, lg1) \<Rightarrow> (None, lg1)
           | (Inr machine, lg1) \<Rightarrow>
               (case m_spec machine of
                  None \<Rightarrow> (None, lg1)
                | Some mspec \<Rightarrow>
                    (let host = (if truthy_str (hostname mspec) then hostname mspec
                                 else ipAddress mspec);
                         ssh_user = (case sshUser mspec of None \<Rightarrow> ''root'' | Some u \<Rightarrow> u);
                         ssh_key_ref = sshKeySecretRef mspec
                     in if \<not> truthy_str host then (None, lg1)
                        else
                          (case (case ssh_key_ref of
                                   None \<Rightarrow> (Inr None, lg1)
                                 | Some r \<Rightarrow>
                                     (case get_secret_data e (ref_name r) namespace lg1 of
                                        (Inl err, lg2) \<Rightarrow> (Inl err, lg2)
                                      | (Inr secret_data, lg2) \<Rightarrow>
                                          if ''ssh-privatekey'' \<in> set (map fst secret_data)
                                          then (case mkstemp e of
                                                  Inl err \<Rightarrow> (Inl err, lg2)
                                                | Inr path \<Rightarrow> (Inr (Some path), lg2))
                                          else (Inr None, lg2))) of
                             (Inl err, lg2) \<Rightarrow> (None, lg2)
                           | (Inr ssh_key_path, lg2) \<Rightarrow>
                               (let ssh_base =
                                      [''ssh'', ''-o'', ''StrictHostKeyChecking=no'', ''-o'',
                                       ''UserKnownHostsFile=/dev/null'']
                                      @ (if truthy_str ssh_key_path
                                         then [''-i'', the ssh_key_path] else [])
                                      @ [ssh_user @ ''@'' @ the host]
                                in (fetch_kubeconfig e ssh_base, lg2)))))))"

section \<open>kubernetescluster_handlers.py: the readiness monitor\<close>

record readiness =
  control_plane_ready :: nat
  data_plane_ready :: nat
  total_control_plane :: nat
  total_data_plane :: nat
  ready_control_plane_nodes :: "string list"

text \<open>
  \<open>is_ready\<close>: the child reports an applied commit and the machine reports
  \<open>hasConfiguration\<close>.
\<close>

definition is_ready :: "nixos_configuration \<Rightarrow> machine \<Rightarrow> bool" where
  "is_ready config machine =
     (truthy_str (case nc_status config of None \<Rightarrow> None | Some st \<Rightarrow> appliedCommit st)
      \<and> (case m_status machine of
            None \<Rightarrow> False
          | Some st \<Rightarrow> (case hasConfiguration st of None \<Rightarrow> False | Some b \<Rightarrow> b)))"

definition is_control_plane :: "nixos_configuration \<Rightarrow> bool" where
  "is_control_plane config =
     (let config_labels = (case nc_labels config of None \<Rightarrow> [] | Some l \<Rightarrow> l);
          role = (case map_of config_labels ''nico.homystack.com/role'' of
                    None \<Rightarrow> ''worker''
                  | Some r \<Rightarrow> r)
      in role = ''control-plane'')"

definition initial_readiness :: readiness where
  "initial_readiness =
     \<lparr>control_plane_ready = 0, data_plane_ready = 0, total_control_plane = 0,
      total_data_plane = 0, ready_control_plane_nodes = []\<rparr>"

text \<open>The counters after one machine whose child and Machine were both fetched.\<close>

definition count_machine ::
  "string \<Rightarrow> nixos_configuration \<Rightarrow> machine \<Rightarrow> readiness \<Rightarrow> readiness" where
  "count_machine machine_name config machine r =
     (let r1 = (if is_ready config machine
                then (if is_control_plane config
                      then r\<lparr>control_plane_ready := control_plane_ready r + 1,
                             ready_control_plane_nodes :=
                               ready_control_plane_nodes r @ [machine_name]\<rparr>
                      else r\<lparr>data_plane_ready := data_plane_ready r + 1\<rparr>)
                else r)
      in if is_control_plane config
         then r1\<lparr>total_control_plane := total_control_plane r1 + 1\<rparr>
         else r1\<lparr>total_data_plane := total_data_plane r1 + 1\<rparr>)"

text \<open>
  The loop over \<open>applied_configs.items()\<close>. An exception of either fetch leaves the
  \<open>try\<close> before any counter is touched, and the loop goes on with the next machine.
\<close>

fun aggregate_readiness :: "env \<Rightarrow> string \<Rightarrow> dict \<Rightarrow> readiness \<Rightarrow> log \<Rightarrow> readiness \<times> log" where
  "aggregate_readiness e namespace [] r lg = (r, lg)"
| "aggregate_readiness e namespace ((machine_name, config_name) # rest) r lg =
     (case get_nixos_configuration e config_name namespace lg of
        (Inl err, lg1) \<Rightarrow> aggregate_readiness e namespace rest r lg1
      | (Inr config, lg1) \<Rightarrow>
          (case get_machine e machine_name namespace lg1 of
             (Inl err, lg2) \<Rightarrow> aggregate_readiness e namespace rest r lg2
           | (Inr machine, lg2) \<Rightarrow>
               aggregate_readiness e namespace rest
                 (count_machine machine_name config machine r) lg2))"

text \<open>
  The \<open>try\<close> that creates the kubeconfig secret: only a 404 of the read leads to the
  extraction, and every exception ends the block.
\<close>

definition ensure_kubeconfig_secret ::
  "env \<Rightarrow> string \<Rightarrow> string \<Rightarrow> string list \<Rightarrow> log \<Rightarrow> log" where
  "ensure_kubeconfig_secret e kubeconfig_secret_name namespace ready_nodes lg =
     (case read_namespaced_secret e kubeconfig_secret_name namespace lg of
        (Inr existing, lg1) \<Rightarrow> lg1
      | (Inl (ApiException st txt), lg1) \<Rightarrow>
          if st = 404 then
            (let (kubeconfig, lg2) =
                   extract_kubeconfig_from_control_plane e ready_nodes namespace lg1
             in if truthy_str kubeconfig
                then snd (create_secret e kubeconfig_secret_name namespace
                            [(''kubeconfig'', the kubeconfig)] lg2)
                else lg2)
          else lg1
      | (Inl err, lg1) \<Rightarrow> lg1)"

definition ratio :: "nat \<Rightarrow> nat \<Rightarrow> string" where
  "ratio a b = str_of_nat a @ ''/'' @ str_of_nat b"

text \<open>The status that the monitor writes, from the counters and the time.\<close>

definition monitor_status :: "env \<Rightarrow> string \<Rightarrow> readiness \<Rightarrow> status_update" where
  "monitor_status e name r =
     (let phase = cluster_phase (control_plane_ready r) (total_control_plane r)
                    (data_plane_ready r) (total_data_plane r)
      in \<lparr>su_phase = phase,
          su_controlPlaneReady = ratio (control_plane_ready r) (total_control_plane r),
          su_dataPlaneReady = ratio (data_plane_ready r) (total_data_plane r),
          su_kubeconfigSecret = name @ ''-kubeconfig'',
          su_appliedMachines = None,
          su_selectedControlPlaneMachines = None,
          su_selectedDataPlaneMachines = None,
          su_conditions =
            [\<lparr>c_type = ''Ready'',
              c_status = (if phase = ''Ready'' then ''True'' else ''False''),
              c_lastTransitionTime = utcnow e @ ''Z'',
              c_reason = (if phase = ''Ready'' then ''AllNodesReady'' else phase),
              c_message =
                ''Control plane: '' @ ratio (control_plane_ready r) (total_control_plane r)
                @ '', Workers: '' @ ratio (data_plane_ready r) (total_data_plane r)\<rparr>]\<rparr>)"

definition monitor_cluster_status ::
  "env \<Rightarrow> cluster_body \<Rightarrow> cluster_spec \<Rightarrow> string \<Rightarrow> string \<Rightarrow> log \<Rightarrow> log" where
  "monitor_cluster_status e body spec name namespace lg =
     (let status = (case b_status body of None \<Rightarrow> empty_status | Some st \<Rightarrow> st);
          applied_configs = (case appliedMachines status of None \<Rightarrow> [] | Some a \<Rightarrow> a)
      in if applied_configs = [] then lg
         else
           (let (r, lg1) =
                  aggregate_readiness e namespace applied_configs initial_readiness lg;
                kubeconfig_secret_name = name @ ''-kubeconfig'';
                lg2 = (if all_control_plane_ready (control_plane_ready r) (total_control_plane r)
                       then ensure_kubeconfig_secret e kubeconfig_secret_name namespace
                              (ready_control_plane_nodes r) lg1
                       else lg1)
            in snd (update_cluster_status e name namespace (monitor_status e name r) lg2)))"

section \<open>The statements of the specification\<close>

text \<open>
  Fresh selection in the words of the specification: keep the machines whose labels carry
  every pair of \<open>matchLabels\<close> and whose flag \<open>hasConfiguration\<close> is false, an absent flag
  counting as true; sort the names; take the first \<open>count\<close>.
\<close>

definition spec_labels_superset :: "dict \<Rightarrow> dict \<Rightarrow> bool" where
  "spec_labels_superset machine_labels match_labels =
     (\<forall>(k, v) \<in> set match_labels. map_of machine_labels k = Some v)"

definition spec_has_configuration :: "machine \<Rightarrow> bool" where
  "spec_has_configuration m =
     (case m_status m of
        None \<Rightarrow> True
      | Some st \<Rightarrow> (case hasConfiguration st of None \<Rightarrow> True | Some b \<Rightarrow> b))"

definition spec_fresh_selection :: "dict \<Rightarrow> int \<Rightarrow> machine list \<Rightarrow> string list" where
  "spec_fresh_selection match_labels cnt pool =
     take (nat cnt)
       (sort (map m_name
          (filter (\<lambda>m. spec_labels_superset (case m_labels m of None \<Rightarrow> [] | Some l \<Rightarrow> l)
                         match_labels
                       \<and> \<not> spec_has_configuration m) pool)))"

section \<open>Worlds and documents of the examples\<close>

text \<open>
  A world that gives the same answer to every call of a kind. The codec and the document
  parser are the identity and every process times out: no statement below depends on them.
\<close>

definition constant_env ::
  "error + machine \<Rightarrow> error + machine_list \<Rightarrow> error + nixos_configuration \<Rightarrow> error + secret
     \<Rightarrow> error option \<Rightarrow> env" where
  "constant_env m ml c s w =
     \<lparr>machine_reply = (\<lambda>h. m), machine_list_reply = (\<lambda>h. ml), config_reply = (\<lambda>h. c),
      secret_reply = (\<lambda>h. s), write_reply = (\<lambda>h. w), b64encode = (\<lambda>x. x),
      b64decode = Inr, subprocess_run = (\<lambda>cmd. TimeoutExpired),
      mkstemp = Inr ''/tmp/nico-ssh-0'', yaml_reemit = Inr,
      utcnow = ''2025-01-01T00:00:00''\<rparr>"

definition not_found :: error where
  "not_found = ApiException 404 ''(404) Reason: Not Found''"

definition server_error :: error where
  "server_error = ApiException 500 ''(500) Reason: Internal Server Error''"

definition pool_machine :: "string \<Rightarrow> dict \<Rightarrow> bool \<Rightarrow> machine" where
  "pool_machine n labels configured =
     \<lparr>m_name = n, m_labels = Some labels, m_annotations = None,
      m_spec = Some \<lparr>hostname = Some n, ipAddress = None, sshUser = None,
                     sshKeySecretRef = None\<rparr>,
      m_status = Some \<lparr>hasConfiguration = Some configured\<rparr>\<rparr>"

definition selector_block :: "dict \<Rightarrow> int \<Rightarrow> role_spec" where
  "selector_block labels n =
     \<lparr>machines = None, machineSelector = Some \<lparr>matchLabels = Some labels\<rparr>, count = Some n\<rparr>"

definition parent_spec :: "role_spec option \<Rightarrow> role_spec option \<Rightarrow> cluster_spec" where
  "parent_spec cp dp =
     \<lparr>gitRepo = Some ''https://git.example/cluster.git'', ref = None,
      configurationSubdir = None, credentialsRef = None, controlPlane = cp, dataPlane = dp\<rparr>"

text \<open>Scenario S2: the pool holds only \<open>cp-a\<close>, the status remembers \<open>cp-b\<close>.\<close>

definition s2_env :: env where
  "s2_env =
     constant_env (Inl not_found)
       (Inr \<lparr>items = Some [pool_machine ''cp-a'' [(''r'', ''cp'')] False]\<rparr>)
       (Inl not_found) (Inl not_found) None"

definition s2_status :: cluster_status where
  "s2_status =
     \<lparr>appliedMachines = None, selectedControlPlaneMachines = Some [''cp-b''],
      selectedDataPlaneMachines = None, st_other_keys = True\<rparr>"

text \<open>Scenario S1: three workers, \<open>w2\<close> already configured.\<close>

definition s1_env :: env where
  "s1_env =
     constant_env (Inl not_found)
       (Inr \<lparr>items = Some [pool_machine ''w3'' [(''r'', ''w'')] False,
                           pool_machine ''w1'' [(''r'', ''w'')] False,
                           pool_machine ''w2'' [(''r'', ''w'')] True]\<rparr>)
       (Inl not_found) (Inl not_found) None"

section \<open>The calls of a run\<close>

text \<open>
  A handler puts its calls in front of the history that it starts from. \<open>new_calls lg lg'\<close>
  are the calls by which \<open>lg'\<close> is longer than \<open>lg\<close>, and \<open>emits P lg lg'\<close> says that \<open>lg'\<close>
  is \<open>lg\<close> with calls in front that all satisfy \<open>P\<close>.
\<close>

definition new_calls :: "log \<Rightarrow> log \<Rightarrow> log" where
  "new_calls lg lg' = take (length lg' - length lg) lg'"

definition emits :: "(api_call \<Rightarrow> bool) \<Rightarrow> log \<Rightarrow> log \<Rightarrow> bool" where
  "emits P lg lg' = (\<exists>new. lg' = new @ lg \<and> list_all P new)"

text \<open>The owner reference of a child of the cluster \<open>name\<close> with the uid \<open>cluster_uid\<close>.\<close>

definition expected_owner :: "string \<Rightarrow> string \<Rightarrow> owner_reference" where
  "expected_owner name cluster_uid =
     \<lparr>or_apiVersion = ''nico.homystack.com/v1alpha1'', or_kind = ''KubernetesCluster'',
      or_name = name, or_uid = cluster_uid, or_controller = True,
      or_blockOwnerDeletion = True\<rparr>"

definition configurable_fields :: "string set" where
  "configurable_fields = {''gitRepo'', ''ref'', ''configurationSubdir'', ''credentialsRef''}"

text \<open>The calls of a reconciliation that does not delete.\<close>

fun reconcile_call :: "string \<Rightarrow> string \<Rightarrow> string \<Rightarrow> api_call \<Rightarrow> bool" where
  "reconcile_call name namespace cluster_uid (GetNamespacedCustomObject g v ns pl n) =
     (g = ''nio.homystack.com'' \<and> v = ''v1alpha1'' \<and> ns = namespace
      \<and> (pl = ''machines'' \<or> pl = ''nixosconfigurations''))"
| "reconcile_call name namespace cluster_uid (ListNamespacedCustomObject g v ns pl) =
     (g = ''nio.homystack.com'' \<and> v = ''v1alpha1'' \<and> ns = namespace \<and> pl = ''machines'')"
| "reconcile_call name namespace cluster_uid (CreateNamespacedCustomObject g v ns pl b) =
     (g = ''nio.homystack.com'' \<and> v = ''v1alpha1'' \<and> ns = namespace
      \<and> pl = ''nixosconfigurations''
      \<and> cb_ownerReferences b = [expected_owner name cluster_uid])"
| "reconcile_call name namespace cluster_uid (PatchNamespacedCustomObject g v ns pl n upd ct) =
     (g = ''nio.homystack.com'' \<and> v = ''v1alpha1'' \<and> ns = namespace
      \<and> pl = ''nixosconfigurations'' \<and> upd \<noteq> []
      \<and> set (map fst upd) \<subseteq> configurable_fields
      \<and> ct = ''application/merge-patch+json'')"
| "reconcile_call name namespace cluster_uid (DeleteNamespacedCustomObject g v ns pl n) = False"
| "reconcile_call name namespace cluster_uid (PatchNamespacedCustomObjectStatus g v ns pl n su) =
     (g = ''nico.homystack.com'' \<and> v = ''v1alpha1'' \<and> ns = namespace
      \<and> pl = ''kubernetesclusters'' \<and> n = name \<and> su_phase su = ''Provisioning''
      \<and> su_kubeconfigSecret su = name @ ''-kubeconfig'')"
| "reconcile_call name namespace cluster_uid (ReadNamespacedSecret n ns) =
     (n = name @ ''-join-token'' \<and> ns = namespace)"
| "reconcile_call name namespace cluster_uid (CreateNamespacedSecret ns b) =
     (ns = namespace \<and> sb_name b = name @ ''-join-token'')"
| "reconcile_call name namespace cluster_uid (DeleteNamespacedSecret n ns) = False"

text \<open>The calls of a deletion.\<close>

fun deletion_call :: "string \<Rightarrow> string \<Rightarrow> api_call \<Rightarrow> bool" where
  "deletion_call name namespace (DeleteNamespacedCustomObject g v ns pl n) =
     (g = ''nio.homystack.com'' \<and> v = ''v1alpha1'' \<and> ns = namespace
      \<and> pl = ''nixosconfigurations'')"
| "deletion_call name namespace (DeleteNamespacedSecret n ns) =
     ((n = name @ ''-join-token'' \<or> n = name @ ''-kubeconfig'') \<and> ns = namespace)"
| "deletion_call name namespace c = False"

text \<open>The calls of a tick of the monitor.\<close>

fun monitor_call :: "string \<Rightarrow> string \<Rightarrow> api_call \<Rightarrow> bool" where
  "monitor_call name namespace (GetNamespacedCustomObject g v ns pl n) =
     (g = ''nio.homystack.com'' \<and> v = ''v1alpha1'' \<and> ns = namespace
      \<and> (pl = ''machines'' \<or> pl = ''nixosconfigurations''))"
| "monitor_call name namespace (PatchNamespacedCustomObjectStatus g v ns pl n su) =
     (g = ''nico.homystack.com'' \<and> v = ''v1alpha1'' \<and> ns = namespace
      \<and> pl = ''kubernetesclusters'' \<and> n = name
      \<and> (su_phase su = ''Provisioning'' \<or> su_phase su = ''ControlPlaneReady''
          \<or> su_phase su = ''Ready'')
      \<and> su_kubeconfigSecret su = name @ ''-kubeconfig'')"
| "monitor_call name namespace (ReadNamespacedSecret n ns) = (ns = namespace)"
| "monitor_call name namespace (CreateNamespacedSecret ns b) =
     (ns = namespace \<and> sb_name b = name @ ''-kubeconfig'')"
| "monitor_call name namespace c = False"

section \<open>Machine selection\<close>

lemma labels_match_iff:
  "labels_match machine_labels match_labels = spec_labels_superset machine_labels match_labels"
  by (induction match_labels) (auto simp: spec_labels_superset_def split: if_splits)

lemma filter_machines_eq:
  "filter_machines match_labels ms acc =
     acc @ map m_name
       (filter (\<lambda>m. spec_labels_superset (case m_labels m of None \<Rightarrow> [] | Some l \<Rightarrow> l)
                      match_labels
                    \<and> \<not> spec_has_configuration m) ms)"
  by (induction ms arbitrary: acc)
     (simp_all add: Let_def labels_match_iff machine_available_def spec_has_configuration_def)

text \<open>
  Claim C1. For a role \<open>controlPlane\<close> or \<open>dataPlane\<close>, whatever the world (and so the
  pool) is: a non-empty list \<open>spec.<role>.machines\<close> is returned as it is, whatever the
  selector block, the count and the status say, and no call is made; otherwise a non-empty
  list \<open>status.selected<Role>Machines\<close> is returned as it is, again without a call, so its
  first element is the first element of the selection.
\<close>

theorem selector_precedence:
  assumes "role = ''controlPlane'' \<or> role = ''dataPlane''"
  shows "(machines (get_role_spec cluster_spec role) = Some L \<and> L \<noteq> [] \<longrightarrow>
            select_machines_for_cluster e cluster_spec namespace role cluster_name
              current_status lg = (L, lg))
       \<and> ((machines (get_role_spec cluster_spec role) = None
            \<or> machines (get_role_spec cluster_spec role) = Some [])
          \<and> current_status = Some st
          \<and> (if role = ''controlPlane'' then selectedControlPlaneMachines st
              else selectedDataPlaneMachines st) = Some S
          \<and> S \<noteq> [] \<longrightarrow>
            select_machines_for_cluster e cluster_spec namespace role cluster_name
              current_status lg = (S, lg)
            \<and> hd (fst (select_machines_for_cluster e cluster_spec namespace role cluster_name
                  current_status lg)) = hd S)"
  using assms
  by (auto simp: select_machines_for_cluster_def Let_def previously_selected_def
      status_truthy_def)

theorem selector_precedence_witness:
  "(''controlPlane'' = ''controlPlane'' \<or> ''controlPlane'' = ''dataPlane'')
   \<and> select_machines_for_cluster s2_env
       (parent_spec (Some ((selector_block [(''r'', ''cp'')] 5)
                             \<lparr>machines := Some [''cp-01'', ''cp-02'']\<rparr>)) None)
       ''default'' ''controlPlane'' ''c'' (Some s2_status) [] = ([''cp-01'', ''cp-02''], [])
   \<and> select_machines_for_cluster s2_env
       (parent_spec (Some (selector_block [(''r'', ''cp'')] 1)) None)
       ''default'' ''controlPlane'' ''c'' (Some s2_status) [] = ([''cp-b''], [])"
proof -
  have r: "''controlPlane'' = ''controlPlane'' \<or> ''controlPlane'' = ''dataPlane''"
    by simp
  have a: "select_machines_for_cluster s2_env
       (parent_spec (Some ((selector_block [(''r'', ''cp'')] 5)
                             \<lparr>machines := Some [''cp-01'', ''cp-02'']\<rparr>)) None)
       ''default'' ''controlPlane'' ''c'' (Some s2_status) [] = ([''cp-01'', ''cp-02''], [])"
    using selector_precedence [OF r, of
        "parent_spec (Some ((selector_block [(''r'', ''cp'')] 5)
                              \<lparr>machines := Some [''cp-01'', ''cp-02'']\<rparr>)) None"
        "[''cp-01'', ''cp-02'']" s2_env "''default''" "''c''" "Some s2_status" "[]"]
    by (simp add: get_role_spec_def parent_spec_def selector_block_def)
  have b: "select_machines_for_cluster s2_env
       (parent_spec (Some (selector_block [(''r'', ''cp'')] 1)) None)
       ''default'' ''controlPlane'' ''c'' (Some s2_status) [] = ([''cp-b''], [])"
    using selector_precedence [OF r, of
        "parent_spec (Some (selector_block [(''r'', ''cp'')] 1)) None" _ s2_env
        "''default''" "''c''" "Some s2_status" "[]" s2_status "[''cp-b'']"]
    by (simp add: get_role_spec_def parent_spec_def selector_block_def s2_status_def)
  from r a b show ?thesis by blast
qed

text \<open>
  Claim C2. With no explicit list and no persisted selection, and a count that is not
  negative, the selector returns the first \<open>count\<close> names, in sorted order, of the machines
  that \<open>list_machines\<close> returned, that carry every pair of \<open>matchLabels\<close> and whose flag
  \<open>hasConfiguration\<close> is false; a count of 0 gives the empty list without a call. The
  right-hand side depends on \<open>matchLabels\<close>, the count and the pool alone.
\<close>

theorem fresh_selection:
  assumes "machines (get_role_spec cluster_spec role) = None
           \<or> machines (get_role_spec cluster_spec role) = Some []"
    and "previously_selected current_status role = None"
    and "cnt = (case count (get_role_spec cluster_spec role) of None \<Rightarrow> 0 | Some c \<Rightarrow> c)"
    and "0 \<le> cnt"
    and "match_labels =
           (case machineSelector (get_role_spec cluster_spec role) of
              None \<Rightarrow> []
            | Some sel \<Rightarrow> (case matchLabels sel of None \<Rightarrow> [] | Some l \<Rightarrow> l))"
  shows "fst (select_machines_for_cluster e cluster_spec namespace role cluster_name
                current_status lg)
           = spec_fresh_selection match_labels cnt (fst (list_machines e namespace lg))
         \<and> (cnt = 0 \<longrightarrow>
              select_machines_for_cluster e cluster_spec namespace role cluster_name
                current_status lg = ([], lg))"
  using assms
  by (auto simp: select_machines_for_cluster_def Let_def spec_fresh_selection_def
      filter_machines_eq py_slice_to_def split: prod.splits option.splits)

theorem fresh_selection_witness:
  "(machines (get_role_spec (parent_spec None (Some (selector_block [(''r'', ''w'')] 1)))
       ''dataPlane'') = None
    \<or> machines (get_role_spec (parent_spec None (Some (selector_block [(''r'', ''w'')] 1)))
       ''dataPlane'') = Some [])
   \<and> previously_selected (Some empty_status) ''dataPlane'' = None
   \<and> (0::int) \<le> 1
   \<and> fst (select_machines_for_cluster s1_env
            (parent_spec None (Some (selector_block [(''r'', ''w'')] 1)))
            ''default'' ''dataPlane'' ''c'' (Some empty_status) []) = [''w1'']"
proof -
  let ?spec = "parent_spec None (Some (selector_block [(''r'', ''w'')] 1))"
  have h1: "machines (get_role_spec ?spec ''dataPlane'') = None
            \<or> machines (get_role_spec ?spec ''dataPlane'') = Some []"
    by (simp add: get_role_spec_def parent_spec_def selector_block_def)
  have h2: "previously_selected (Some empty_status) ''dataPlane'' = None"
    by (simp add: previously_selected_def empty_status_def status_truthy_def)
  have h3: "(1::int) = (case count (get_role_spec ?spec ''dataPlane'') of
                          None \<Rightarrow> 0 | Some c \<Rightarrow> c)"
    by (simp add: get_role_spec_def parent_spec_def selector_block_def)
  have h4: "(0::int) \<le> 1" by simp
  have h5: "[(''r'', ''w'')] =
           (case machineSelector (get_role_spec ?spec ''dataPlane'') of
              None \<Rightarrow> []
            | Some sel \<Rightarrow> (case matchLabels sel of None \<Rightarrow> [] | Some l \<Rightarrow> l))"
    by (simp add: get_role_spec_def parent_spec_def selector_block_def)
  have pool: "spec_fresh_selection [(''r'', ''w'')] 1
                (fst (list_machines s1_env ''default'' [])) = [''w1'']"
    by (simp add: spec_fresh_selection_def list_machines_def s1_env_def constant_env_def
        pool_machine_def spec_labels_superset_def spec_has_configuration_def)
  from fresh_selection [OF h1 h2 h3 h4 h5, of s1_env "''default''" "''c''" "[]"]
  have "fst (select_machines_for_cluster s1_env ?spec ''default'' ''dataPlane'' ''c''
               (Some empty_status) []) = [''w1'']"
    by (simp only: pool)
  with h1 h2 h4 show ?thesis by blast
qed

section \<open>The phase of a cluster\<close>

text \<open>
  Claim C3. For all counter values the phase is \<open>Ready\<close> exactly when
  \<open>cp_ready = cp_total > 0\<close> and (\<open>dp_total = 0\<close> or \<open>dp_ready = dp_total\<close>), it is
  \<open>ControlPlaneReady\<close> exactly when \<open>cp_ready = cp_total > 0\<close> and the cluster is not
  \<open>Ready\<close>, and it is \<open>Provisioning\<close> in every other case.
\<close>

theorem phase_derivation:
  "(cluster_phase cp_ready cp_total dp_ready dp_total = ''Ready'')
     = (cp_ready = cp_total \<and> 0 < cp_total \<and> (dp_total = 0 \<or> dp_ready = dp_total))
   \<and> (cluster_phase cp_ready cp_total dp_ready dp_total = ''ControlPlaneReady'')
     = (cp_ready = cp_total \<and> 0 < cp_total \<and> \<not> (dp_total = 0 \<or> dp_ready = dp_total))
   \<and> (cluster_phase cp_ready cp_total dp_ready dp_total = ''Provisioning'')
     = (\<not> (cp_ready = cp_total \<and> 0 < cp_total))"
  by (auto simp: cluster_phase_def all_control_plane_ready_def all_workers_ready_def)

section \<open>The calls of the reconciler and of the deletion\<close>

lemma emits_refl: "emits P lg lg"
  by (simp add: emits_def)

lemma emits_cons: "emits P lg lg' \<Longrightarrow> P c \<Longrightarrow> emits P lg (c # lg')"
proof -
  assume a: "emits P lg lg'" and c: "P c"
  from a obtain new where n: "lg' = new @ lg" "list_all P new"
    by (auto simp: emits_def)
  then have "c # lg' = (c # new) @ lg \<and> list_all P (c # new)"
    using c by simp
  then show ?thesis unfolding emits_def by blast
qed

lemma emits_trans: "emits P a b \<Longrightarrow> emits P b c \<Longrightarrow> emits P a c"
  by (auto simp: emits_def)

lemma emits_mono: "emits P a b \<Longrightarrow> (\<And>c. P c \<Longrightarrow> Q c) \<Longrightarrow> emits Q a b"
  by (auto simp: emits_def list_all_iff)

lemma emits_new_calls: "emits P lg lg' \<Longrightarrow> list_all P (new_calls lg lg')"
  by (auto simp: emits_def new_calls_def)

lemma emits_suffix: "emits P lg lg' \<Longrightarrow> lg' = new_calls lg lg' @ lg"
  by (auto simp: emits_def new_calls_def)

lemma get_machine_log:
  "get_machine e n ns lg = (r, lg') \<Longrightarrow>
     lg' = GetNamespacedCustomObject ''nio.homystack.com'' ''v1alpha1'' ns ''machines'' n # lg"
  by (auto simp: get_machine_def Let_def)

lemma list_machines_log:
  "list_machines e ns lg = (r, lg') \<Longrightarrow>
     lg' = ListNamespacedCustomObject ''nio.homystack.com'' ''v1alpha1'' ns ''machines'' # lg"
  by (auto simp: list_machines_def Let_def split: sum.splits)

lemma get_nixos_configuration_log:
  "get_nixos_configuration e n ns lg = (r, lg') \<Longrightarrow>
     lg' = GetNamespacedCustomObject ''nio.homystack.com'' ''v1alpha1'' ns
             ''nixosconfigurations'' n # lg"
  by (auto simp: get_nixos_configuration_def Let_def split: sum.splits)

lemma write_call_log: "write_call e c lg = (r, lg') \<Longrightarrow> lg' = c # lg"
  by (auto simp: write_call_def Let_def split: option.splits)

lemma read_namespaced_secret_log:
  "read_namespaced_secret e n ns lg = (r, lg') \<Longrightarrow> lg' = ReadNamespacedSecret n ns # lg"
  by (auto simp: read_namespaced_secret_def Let_def)

lemma get_secret_data_log:
  "get_secret_data e n ns lg = (r, lg') \<Longrightarrow> lg' = ReadNamespacedSecret n ns # lg"
  by (auto simp: get_secret_data_def Let_def split: sum.splits option.splits if_splits)

lemma select_machines_emits:
  assumes "select_machines_for_cluster e spec ns role cn st lg = (r, lg')"
    and "emits P lg0 lg"
    and "P (ListNamespacedCustomObject ''nio.homystack.com'' ''v1alpha1'' ns ''machines'')"
  shows "emits P lg0 lg'"
  using assms
  by (auto simp: select_machines_for_cluster_def Let_def
      split: option.splits if_splits prod.splits
      dest!: list_machines_log intro: emits_cons)

lemma create_join_token_secret_emits:
  assumes "create_join_token_secret e name ns lg = (r, lg')"
    and "emits (reconcile_call name ns u) lg0 lg"
  shows "emits (reconcile_call name ns u) lg0 lg'"
  using assms
  by (auto simp: create_join_token_secret_def Let_def create_secret_def
      split: sum.splits error.splits if_splits prod.splits
      dest!: read_namespaced_secret_log write_call_log intro!: emits_cons)

lemma create_nixos_configuration_for_machine_emits:
  assumes "create_nixos_configuration_for_machine e name u m role spec ns jts cp w info lg
             = (r, lg')"
    and "emits (reconcile_call name ns u) lg0 lg"
  shows "emits (reconcile_call name ns u) lg0 lg'"
  using assms
  by (auto simp: create_nixos_configuration_for_machine_def Let_def
      create_nixos_configuration_with_owner_def expected_owner_def
      split: sum.splits option.splits if_splits prod.splits
      dest!: get_machine_log write_call_log intro!: emits_cons)

lemma compute_spec_updates_keys:
  "compute_spec_updates spec ex = Inr upd \<Longrightarrow> set (map fst upd) \<subseteq> configurable_fields"
  by (auto simp: compute_spec_updates_def Let_def configurable_fields_def
      split: if_splits option.splits)

lemma repair_existing_emits:
  assumes "repair_existing e spec cn ns lg = (r, lg')"
    and "emits (reconcile_call name ns u) lg0 lg"
  shows "emits (reconcile_call name ns u) lg0 lg'"
  using assms
  by (auto simp: repair_existing_def Let_def patch_nixos_configuration_spec_def
      split: sum.splits option.splits if_splits prod.splits
      dest!: get_nixos_configuration_log write_call_log compute_spec_updates_keys
      intro!: emits_cons)

lemma ensure_configuration_emits:
  assumes "ensure_configuration e name u m role spec ns jts cp w info lg = (r, lg')"
    and "emits (reconcile_call name ns u) lg0 lg"
  shows "emits (reconcile_call name ns u) lg0 lg'"
  using assms
  by (auto simp: ensure_configuration_def Let_def
      split: sum.splits if_splits prod.splits
      dest: repair_existing_emits create_nixos_configuration_for_machine_emits)

lemma ensure_configurations_emits:
  assumes "ensure_configurations e name u role spec ns jts cp w info ms applied lg = (r, lg')"
    and "emits (reconcile_call name ns u) lg0 lg"
  shows "emits (reconcile_call name ns u) lg0 lg'"
  using assms
proof (induction ms arbitrary: applied lg)
  case Nil
  then show ?case by simp
next
  case (Cons m ms)
  obtain r1 lg1 where s: "ensure_configuration e name u m role spec ns jts cp w info lg = (r1, lg1)"
    by (cases "ensure_configuration e name u m role spec ns jts cp w info lg")
  from ensure_configuration_emits [OF s Cons.prems(2)]
  have e1: "emits (reconcile_call name ns u) lg0 lg1" .
  show ?case
  proof (cases r1)
    case (Inl err)
    with Cons.prems(1) s have "lg' = lg1" by simp
    with e1 show ?thesis by simp
  next
    case (Inr config_name)
    with Cons.prems(1) s
    have "ensure_configurations e name u role spec ns jts cp w info ms
            (dict_set m config_name applied) lg1 = (r, lg')"
      by simp
    from Cons.IH [OF this e1] show ?thesis .
  qed
qed

lemma collect_machines_info_emits:
  assumes "collect_machines_info e ns ms info lg = (r, lg')"
    and "emits (reconcile_call name ns u) lg0 lg"
  shows "emits (reconcile_call name ns u) lg0 lg'"
  using assms
proof (induction ms arbitrary: info lg)
  case Nil
  then show ?case by simp
next
  case (Cons m ms)
  obtain r1 lg1 where s: "get_machine e m ns lg = (r1, lg1)"
    by (cases "get_machine e m ns lg")
  from get_machine_log [OF s] Cons.prems(2)
  have e1: "emits (reconcile_call name ns u) lg0 lg1"
    by (auto intro!: emits_cons)
  show ?case
  proof (cases r1)
    case (Inl err)
    with Cons.prems(1) s have "lg' = lg1" by simp
    with e1 show ?thesis by simp
  next
    case (Inr machine)
    show ?thesis
    proof (cases "m_spec machine")
      case None
      with Inr Cons.prems(1) s have "lg' = lg1" by simp
      with e1 show ?thesis by simp
    next
      case (Some mspec)
      with Inr Cons.prems(1) s obtain info' where
        "collect_machines_info e ns ms info' lg1 = (r, lg')"
        by simp
      from Cons.IH [OF this e1] show ?thesis .
    qed
  qed
qed

lemma delete_configurations_emits:
  "emits (deletion_call name ns) lg0 lg \<Longrightarrow>
     emits (deletion_call name ns) lg0 (delete_configurations e ns applied lg)"
proof (induction applied arbitrary: lg)
  case Nil
  then show ?case by simp
next
  case (Cons a applied)
  obtain m c where a: "a = (m, c)" by (cases a)
  obtain r1 lg1 where s: "delete_nixos_configuration e c ns lg = (r1, lg1)"
    by (cases "delete_nixos_configuration e c ns lg")
  then have "lg1 = DeleteNamespacedCustomObject ''nio.homystack.com'' ''v1alpha1'' ns
                     ''nixosconfigurations'' c # lg"
    by (auto simp: delete_nixos_configuration_def dest: write_call_log)
  with Cons.prems have "emits (deletion_call name ns) lg0 lg1"
    by (auto intro!: emits_cons)
  from Cons.IH [OF this] a s show ?case by simp
qed

lemma delete_secret_log:
  "snd (delete_secret e n ns lg) = DeleteNamespacedSecret n ns # lg"
  by (cases "write_call e (DeleteNamespacedSecret n ns) lg")
     (auto simp: delete_secret_def dest: write_call_log)

lemma handle_cluster_deletion_emits:
  "emits (deletion_call name ns) lg0 lg \<Longrightarrow>
     emits (deletion_call name ns) lg0 (handle_cluster_deletion e name ns body lg)"
  by (auto simp: handle_cluster_deletion_def Let_def delete_secret_log
      intro!: emits_cons delete_configurations_emits)

lemma select_machines_reconcile_emits:
  assumes "select_machines_for_cluster e spec ns role cn st lg = (r, lg')"
    and "emits (reconcile_call name ns u) lg0 lg"
  shows "emits (reconcile_call name ns u) lg0 lg'"
  using assms by (rule select_machines_emits) simp

lemma update_cluster_status_log:
  "update_cluster_status e n ns su lg = (r, lg') \<Longrightarrow>
     lg' = PatchNamespacedCustomObjectStatus ''nico.homystack.com'' ''v1alpha1'' ns
             ''kubernetesclusters'' n su # lg"
  by (auto simp: update_cluster_status_def dest: write_call_log)

lemma reconcile_steps_main_emits:
  assumes rs: "reconcile_steps e body spec name ns lg = (r, lg')"
    and nd: "\<not> truthy_str (deletionTimestamp body)"
  shows "emits (reconcile_call name ns (the (uid body))) lg lg'"
proof (cases "truthy_str (uid body)")
  case False
  with rs nd have "lg' = lg" by (simp add: reconcile_steps_def)
  then show ?thesis by (simp add: emits_refl)
next
  case True
  let ?P = "reconcile_call name ns (the (uid body))"
  let ?st = "Some (case b_status body of None \<Rightarrow> empty_status | Some st \<Rightarrow> st)"
  obtain cp lg1 where s1:
    "select_machines_for_cluster e spec ns ''controlPlane'' name ?st lg = (cp, lg1)"
    by (cases "select_machines_for_cluster e spec ns ''controlPlane'' name ?st lg")
  obtain w lg2 where s2:
    "select_machines_for_cluster e spec ns ''dataPlane'' name ?st lg1 = (w, lg2)"
    by (cases "select_machines_for_cluster e spec ns ''dataPlane'' name ?st lg1")
  have e1: "emits ?P lg lg1"
    by (rule select_machines_reconcile_emits [OF s1 emits_refl])
  have e2: "emits ?P lg lg2"
    by (rule select_machines_reconcile_emits [OF s2 e1])
  show ?thesis
  proof (cases "cp = []")
    case True
    with rs nd \<open>truthy_str (uid body)\<close> s1 s2 have "lg' = lg2"
      by (simp add: reconcile_steps_def)
    with e2 show ?thesis by simp
  next
    case cp: False
    obtain rj lg3 where s3: "create_join_token_secret e name ns lg2 = (rj, lg3)"
      by (cases "create_join_token_secret e name ns lg2")
    have e3: "emits ?P lg lg3"
      by (rule create_join_token_secret_emits [OF s3 e2])
    show ?thesis
    proof (cases rj)
      case (Inl err)
      with rs nd \<open>truthy_str (uid body)\<close> s1 s2 cp s3 have "lg' = lg3"
        by (simp add: reconcile_steps_def)
      with e3 show ?thesis by simp
    next
      case rj: (Inr jts)
      obtain ri lg4 where s4: "collect_machines_info e ns (cp @ w) [] lg3 = (ri, lg4)"
        by (cases "collect_machines_info e ns (cp @ w) [] lg3")
      have e4: "emits ?P lg lg4"
        by (rule collect_machines_info_emits [OF s4 e3])
      show ?thesis
      proof (cases ri)
        case (Inl err)
        with rs nd \<open>truthy_str (uid body)\<close> s1 s2 cp s3 rj s4 have "lg' = lg4"
          by (simp add: reconcile_steps_def)
        with e4 show ?thesis by simp
      next
        case ri: (Inr info)
        obtain ra lg5 where s5:
          "ensure_configurations e name (the (uid body)) ''control-plane'' spec ns jts cp w
             info cp [] lg4 = (ra, lg5)"
          by (cases "ensure_configurations e name (the (uid body)) ''control-plane'' spec ns
                       jts cp w info cp [] lg4")
        have e5: "emits ?P lg lg5"
          by (rule ensure_configurations_emits [OF s5 e4])
        show ?thesis
        proof (cases ra)
          case (Inl err)
          with rs nd \<open>truthy_str (uid body)\<close> s1 s2 cp s3 rj s4 ri s5 have "lg' = lg5"
            by (simp add: reconcile_steps_def)
          with e5 show ?thesis by simp
        next
          case ra: (Inr applied_cp)
          obtain rb lg6 where s6:
            "ensure_configurations e name (the (uid body)) ''worker'' spec ns jts cp w
               info w applied_cp lg5 = (rb, lg6)"
            by (cases "ensure_configurations e name (the (uid body)) ''worker'' spec ns
                         jts cp w info w applied_cp lg5")
          have e6: "emits ?P lg lg6"
            by (rule ensure_configurations_emits [OF s6 e5])
          show ?thesis
          proof (cases rb)
            case (Inl err)
            with rs nd \<open>truthy_str (uid body)\<close> s1 s2 cp s3 rj s4 ri s5 ra s6
            have "lg' = lg6"
              by (simp add: reconcile_steps_def)
            with e6 show ?thesis by simp
          next
            case rb: (Inr applied)
            from rs nd \<open>truthy_str (uid body)\<close> s1 s2 cp s3 rj s4 ri s5 ra s6 rb
            obtain su where u: "update_cluster_status e name ns su lg6 = (r, lg')"
              and ph: "su_phase su = ''Provisioning''"
              and ks: "su_kubeconfigSecret su = name @ ''-kubeconfig''"
              by (simp add: reconcile_steps_def provisioning_status_def)
            from update_cluster_status_log [OF u] e6 ph ks show ?thesis
              by (auto intro!: emits_cons)
          qed
        qed
      qed
    qed
  qed
qed

lemma reconcile_steps_emits:
  assumes rs: "reconcile_steps e body spec name ns lg = (r, lg')"
  shows "emits (\<lambda>c. reconcile_call name ns (the (uid body)) c \<or> deletion_call name ns c)
           lg lg'"
proof (cases "truthy_str (deletionTimestamp body)")
  case True
  with rs have "lg' = handle_cluster_deletion e name ns body lg"
    by (simp add: reconcile_steps_def)
  with handle_cluster_deletion_emits [OF emits_refl, of name ns lg e body]
  show ?thesis by (auto elim: emits_mono)
next
  case False
  from reconcile_steps_main_emits [OF rs False] show ?thesis
    by (auto elim: emits_mono)
qed

lemma reconcile_log:
  "snd (reconcile_kubernetes_cluster e body spec name ns lg)
     = snd (reconcile_steps e body spec name ns lg)"
  by (cases "reconcile_steps e body spec name ns lg")
     (auto simp: reconcile_kubernetes_cluster_def split: sum.splits error.splits)

section \<open>The calls of the monitor\<close>

lemma aggregate_readiness_emits:
  assumes "aggregate_readiness e ns applied r lg = (r', lg')"
    and "emits P lg0 lg"
    and "\<And>n. P (GetNamespacedCustomObject ''nio.homystack.com'' ''v1alpha1'' ns
                   ''machines'' n)"
    and "\<And>n. P (GetNamespacedCustomObject ''nio.homystack.com'' ''v1alpha1'' ns
                   ''nixosconfigurations'' n)"
  shows "emits P lg0 lg'"
  using assms(1,2)
proof (induction applied arbitrary: r lg)
  case Nil
  then show ?case by simp
next
  case (Cons a applied)
  obtain m c where a: "a = (m, c)" by (cases a)
  obtain rc lg1 where s1: "get_nixos_configuration e c ns lg = (rc, lg1)"
    by (cases "get_nixos_configuration e c ns lg")
  from get_nixos_configuration_log [OF s1] Cons.prems(2) assms(4)
  have e1: "emits P lg0 lg1" by (auto intro!: emits_cons)
  show ?case
  proof (cases rc)
    case (Inl err)
    with Cons.prems(1) a s1 have "aggregate_readiness e ns applied r lg1 = (r', lg')"
      by simp
    from Cons.IH [OF this e1] show ?thesis .
  next
    case rc: (Inr config)
    obtain rm lg2 where s2: "get_machine e m ns lg1 = (rm, lg2)"
      by (cases "get_machine e m ns lg1")
    from get_machine_log [OF s2] e1 assms(3)
    have e2: "emits P lg0 lg2" by (auto intro!: emits_cons)
    show ?thesis
    proof (cases rm)
      case (Inl err)
      with Cons.prems(1) a s1 rc s2 have "aggregate_readiness e ns applied r lg2 = (r', lg')"
        by simp
      from Cons.IH [OF this e2] show ?thesis .
    next
      case (Inr machine)
      with Cons.prems(1) a s1 rc s2
      have "aggregate_readiness e ns applied (count_machine m config machine r) lg2 = (r', lg')"
        by simp
      from Cons.IH [OF this e2] show ?thesis .
    qed
  qed
qed

lemma extract_kubeconfig_emits:
  assumes "extract_kubeconfig_from_control_plane e nodes ns lg = (r, lg')"
    and "emits P lg0 lg"
    and "\<And>n. P (GetNamespacedCustomObject ''nio.homystack.com'' ''v1alpha1'' ns
                   ''machines'' n)"
    and "\<And>n. P (ReadNamespacedSecret n ns)"
  shows "emits P lg0 lg'"
proof (cases nodes)
  case Nil
  with assms(1,2) show ?thesis by (simp add: extract_kubeconfig_from_control_plane_def)
next
  case (Cons first_cp others)
  obtain rm lg1 where s1: "get_machine e first_cp ns lg = (rm, lg1)"
    by (cases "get_machine e first_cp ns lg")
  from get_machine_log [OF s1] assms(2,3)
  have e1: "emits P lg0 lg1" by (auto intro!: emits_cons)
  have e2: "emits P lg0 (ReadNamespacedSecret n ns # lg1)" for n
    using e1 assms(4) by (auto intro!: emits_cons)
  from assms(1) Cons s1 have "lg' = lg1 \<or> (\<exists>n. lg' = ReadNamespacedSecret n ns # lg1)"
    by (auto simp: extract_kubeconfig_from_control_plane_def Let_def
        split: sum.splits option.splits if_splits prod.splits
        dest!: get_secret_data_log)
  with e1 e2 show ?thesis by auto
qed

lemma create_secret_log:
  "snd (create_secret e n ns d lg)
     = CreateNamespacedSecret ns \<lparr>sb_name = n, sb_data = map (\<lambda>(k, v). (k, b64encode e v)) d\<rparr>
       # lg"
  by (cases "write_call e (CreateNamespacedSecret ns
               \<lparr>sb_name = n, sb_data = map (\<lambda>(k, v). (k, b64encode e v)) d\<rparr>) lg")
     (auto simp: create_secret_def dest: write_call_log)

lemma ensure_kubeconfig_secret_emits:
  assumes "emits (monitor_call name ns) lg0 lg"
  shows "emits (monitor_call name ns) lg0
           (ensure_kubeconfig_secret e (name @ ''-kubeconfig'') ns nodes lg)"
proof -
  let ?P = "monitor_call name ns"
  obtain rs lg1 where s1: "read_namespaced_secret e (name @ ''-kubeconfig'') ns lg = (rs, lg1)"
    by (cases "read_namespaced_secret e (name @ ''-kubeconfig'') ns lg")
  from read_namespaced_secret_log [OF s1] assms
  have e1: "emits ?P lg0 lg1" by (auto intro!: emits_cons)
  obtain k lg2 where s2: "extract_kubeconfig_from_control_plane e nodes ns lg1 = (k, lg2)"
    by (cases "extract_kubeconfig_from_control_plane e nodes ns lg1")
  have e2: "emits ?P lg0 lg2"
    by (rule extract_kubeconfig_emits [OF s2 e1]) simp_all
  have e3: "emits ?P lg0 (snd (create_secret e (name @ ''-kubeconfig'') ns d lg2))" for d
    using e2 by (auto simp: create_secret_log intro!: emits_cons)
  show ?thesis
    using s1 s2 e1 e2 e3
    by (auto simp: ensure_kubeconfig_secret_def split: sum.splits error.splits)
qed

lemma cluster_phase_cases:
  "cluster_phase a b c d = ''Provisioning'' \<or> cluster_phase a b c d = ''ControlPlaneReady''
   \<or> cluster_phase a b c d = ''Ready''"
  by (simp add: cluster_phase_def)

lemma update_cluster_status_snd:
  "snd (update_cluster_status e n ns su lg)
     = PatchNamespacedCustomObjectStatus ''nico.homystack.com'' ''v1alpha1'' ns
         ''kubernetesclusters'' n su # lg"
  by (cases "update_cluster_status e n ns su lg") (auto dest: update_cluster_status_log)

lemma monitor_cluster_status_emits:
  "emits (monitor_call name ns) lg (monitor_cluster_status e body spec name ns lg)"
proof -
  let ?P = "monitor_call name ns"
  let ?applied = "case appliedMachines (case b_status body of None \<Rightarrow> empty_status
                                         | Some st \<Rightarrow> st) of None \<Rightarrow> [] | Some a \<Rightarrow> a"
  show ?thesis
  proof (cases "?applied = []")
    case True
    then show ?thesis by (simp add: monitor_cluster_status_def emits_refl)
  next
    case False
    obtain r lg1 where s1: "aggregate_readiness e ns ?applied initial_readiness lg = (r, lg1)"
      by (cases "aggregate_readiness e ns ?applied initial_readiness lg")
    have e1: "emits ?P lg lg1"
      by (rule aggregate_readiness_emits [OF s1 emits_refl]) simp_all
    have e2: "emits ?P lg (ensure_kubeconfig_secret e (name @ ''-kubeconfig'') ns
                (ready_control_plane_nodes r) lg1)"
      by (rule ensure_kubeconfig_secret_emits [OF e1])
    show ?thesis
      using False s1 e1 e2
        cluster_phase_cases [of "control_plane_ready r" "total_control_plane r"
          "data_plane_ready r" "total_data_plane r"]
      by (auto simp: monitor_cluster_status_def monitor_status_def Let_def
          update_cluster_status_snd intro!: emits_cons)
  qed
qed

end
